theory Spec2Isabelle
  imports Main "HOL-Library.Sublist"
begin

section \<open>Text\<close>

text \<open>
  A Python \<open>str\<close> is modelled by its UTF-8 bytes (\<open>string\<close> is a list of 8-bit
  characters). UTF-8 is self-synchronising, so one text occurs inside another exactly
  when its bytes occur inside the other's bytes. The pictographs of \<open>bot.py\<close> are
  given by name below, each with its code point.
\<close>

definition NL :: string where
  \<comment> \<open>the escape \<open>\n\<close>\<close>
  "NL = [CHR 0x0A]"

definition WAVE :: string where
  \<comment> \<open>U+1F44B\<close>
  "WAVE = [CHR 0xF0, CHR 0x9F, CHR 0x91, CHR 0x8B]"

definition ID_SIGN :: string where
  \<comment> \<open>U+1F194\<close>
  "ID_SIGN = [CHR 0xF0, CHR 0x9F, CHR 0x86, CHR 0x94]"

definition TEE :: string where
  \<comment> \<open>U+251C\<close>
  "TEE = [CHR 0xE2, CHR 0x94, CHR 0x9C]"

definition ELBOW :: string where
  \<comment> \<open>U+2514\<close>
  "ELBOW = [CHR 0xE2, CHR 0x94, CHR 0x94]"

definition INFO_SIGN :: string where
  \<comment> \<open>U+2139 U+FE0F\<close>
  "INFO_SIGN = [CHR 0xE2, CHR 0x84, CHR 0xB9, CHR 0xEF, CHR 0xB8, CHR 0x8F]"

definition WARNING_SIGN :: string where
  \<comment> \<open>U+26A0 U+FE0F\<close>
  "WARNING_SIGN = [CHR 0xE2, CHR 0x9A, CHR 0xA0, CHR 0xEF, CHR 0xB8, CHR 0x8F]"

definition BUST :: string where
  \<comment> \<open>U+1F464\<close>
  "BUST = [CHR 0xF0, CHR 0x9F, CHR 0x91, CHR 0xA4]"

definition CHECK_MARK :: string where
  \<comment> \<open>U+2705\<close>
  "CHECK_MARK = [CHR 0xE2, CHR 0x9C, CHR 0x85]"

definition CROSS_MARK :: string where
  \<comment> \<open>U+274C\<close>
  "CROSS_MARK = [CHR 0xE2, CHR 0x9D, CHR 0x8C]"

definition QUOTE :: string where
  \<comment> \<open>the apostrophe of Python's exception messages\<close>
  "QUOTE = [CHR 0x27]"

text \<open>\<open>str(n)\<close> for a Python \<open>int\<close>: decimal digits, a minus sign when negative.\<close>

definition digit_char :: "nat \<Rightarrow> char" where
  "digit_char d = ''0123456789'' ! d"

fun str_nat :: "nat \<Rightarrow> string" where
  "str_nat n = (if n < 10 then [digit_char n] else str_nat (n div 10) @ [digit_char (n mod 10)])"

declare str_nat.simps [simp del]

definition str_int :: "int \<Rightarrow> string" where
  "str_int i = (if i < 0 then CHR ''-'' # str_nat (nat (- i)) else str_nat (nat i))"

text \<open>How many times a text occurs in another: the number of positions it starts at.\<close>

definition occurrences :: "string \<Rightarrow> string \<Rightarrow> nat" where
  "occurrences pat s = length (filter (\<lambda>i. prefix pat (drop i s)) [0..<Suc (length s)])"

section \<open>The objects the handlers receive\<close>

text \<open>
  The classes of the client library, with the attributes \<open>bot.py\<close> reads. An optional
  attribute is an \<open>option\<close>. The forward attributes of a message are probed with
  \<open>hasattr\<close> before they are read, so for them the model also has the object that lacks
  the attribute altogether (\<open>Missing\<close>). A forward date is a \<open>datetime\<close>, here its
  timestamp; like any \<open>datetime\<close> it is true. An update holds either a message or a
  callback query; the message a callback query belongs to is the one its button sits
  under, and the bot only puts buttons under messages it sent into a chat.
\<close>

record User =
  user_id :: int
  username :: "string option"
  is_bot :: bool
  language_code :: "string option"

record Chat =
  chat_ident :: int
  chat_title :: "string option"

datatype 'a attr = Missing | Present 'a

record Message =
  chat_id :: int
  message_id :: int
  forward_from :: "User option attr"
  forward_from_chat :: "Chat option attr"
  forward_sender_name :: "string option attr"
  forward_date :: "nat option attr"

record CallbackQuery =
  query_id :: string
  data :: "string option"
  from_user :: User
  query_message :: Message

record Update =
  message :: "Message option"
  callback_query :: "CallbackQuery option"
  effective_user :: "User option"

datatype InlineKeyboardButton = InlineKeyboardButton (label: string) (callback_data: string)

type_synonym InlineKeyboardMarkup = "InlineKeyboardButton list list"

text \<open>
  Python truth of an optional text (\<open>x if x else 'N/A'\<close>): \<open>None\<close> and the empty text
  are false.
\<close>

fun or_NA :: "string option \<Rightarrow> string" where
  "or_NA None = ''N/A''"
| "or_NA (Some s) = (if s = [] then ''N/A'' else s)"

text \<open>
  \<open>hasattr(msg, a) and msg.a\<close>: the value of the attribute when the object has it and it
  is true, given the truth test of the attribute's class.
\<close>

fun probe :: "('a \<Rightarrow> bool) \<Rightarrow> 'a option attr \<Rightarrow> 'a option" where
  "probe truthy Missing = None"
| "probe truthy (Present None) = None"
| "probe truthy (Present (Some v)) = (if truthy v then Some v else None)"

definition object_truth :: "'a \<Rightarrow> bool" where
  \<comment> \<open>an instance of a class with neither \<open>__bool__\<close> nor \<open>__len__\<close> is true\<close>
  "object_truth v = True"

definition str_truth :: "string \<Rightarrow> bool" where
  "str_truth s = (s \<noteq> [])"

section \<open>Exceptions, the transport and the log\<close>

datatype exn =
    AttributeError string string  \<comment> \<open>class of the object, name of the attribute\<close>
  | NetworkError string
  | CancelledError

fun is_Exception :: "exn \<Rightarrow> bool" where
  \<comment> \<open>what \<open>except Exception\<close> catches: \<open>CancelledError\<close> derives from \<open>BaseException\<close> only\<close>
  "is_Exception CancelledError = False"
| "is_Exception _ = True"

fun exn_str :: "exn \<Rightarrow> string" where
  "exn_str (AttributeError cls a) =
     QUOTE @ cls @ QUOTE @ '' object has no attribute '' @ QUOTE @ a @ QUOTE"
| "exn_str (NetworkError m) = m"
| "exn_str CancelledError = []"

datatype call =
    AnswerCallbackQuery string
  | SendMessage int string "string option" "InlineKeyboardMarkup option"
  | EditMessageText int int string "string option" "InlineKeyboardMarkup option"
  | DeleteMessage int int

datatype outcome = Completes | Raises exn

text \<open>
  The world a handler runs in: \<open>script\<close> holds what the transport will answer to the
  coming requests, in order (once it is used up, requests complete); \<open>trace\<close> is every
  request made so far with its outcome; \<open>log\<close> is what \<open>logger.error\<close> wrote.
  A request that raises has no effect on the platform.
\<close>

record world =
  script :: "outcome list"
  trace :: "(call \<times> outcome) list"
  log :: "string list"

type_synonym proc = "world \<Rightarrow> (exn + unit) \<times> world"

definition skip :: proc where
  "skip w = (Inr (), w)"

definition raise :: "exn \<Rightarrow> proc" where
  "raise e w = (Inl e, w)"

definition then_do :: "proc \<Rightarrow> proc \<Rightarrow> proc" where
  "then_do p q w = (case p w of (Inl e, w') \<Rightarrow> (Inl e, w') | (Inr _, w') \<Rightarrow> q w')"

definition next_outcome :: "world \<Rightarrow> outcome" where
  "next_outcome w = (case script w of [] \<Rightarrow> Completes | out # _ \<Rightarrow> out)"

definition issued :: "call \<Rightarrow> world \<Rightarrow> world" where
  \<comment> \<open>the world after the request \<open>c\<close> has been made and answered\<close>
  "issued c w = w\<lparr>script := tl (script w), trace := trace w @ [(c, next_outcome w)]\<rparr>"

definition transport :: "call \<Rightarrow> proc" where
  "transport c w =
     (case next_outcome w of
        Completes \<Rightarrow> (Inr (), issued c w)
      | Raises e \<Rightarrow> (Inl e, issued c w))"

definition delivered :: "call \<Rightarrow> world \<Rightarrow> world" where
  \<comment> \<open>the world after the request \<open>c\<close> has been made and has completed\<close>
  "delivered c w = w\<lparr>script := tl (script w), trace := trace w @ [(c, Completes)]\<rparr>"

definition completes :: "nat \<Rightarrow> world \<Rightarrow> bool" where
  \<comment> \<open>the transport lets the next \<open>n\<close> requests complete\<close>
  "completes n w = list_all (\<lambda>out. out = Completes) (take n (script w))"

definition logger_error :: "string \<Rightarrow> world \<Rightarrow> world" where
  "logger_error line w = w\<lparr>log := log w @ [line]\<rparr>"

definition reply_text ::
  "Message option \<Rightarrow> string \<Rightarrow> string option \<Rightarrow> InlineKeyboardMarkup option \<Rightarrow> proc" where
  \<comment> \<open>\<open>msg.reply_text(...)\<close>: a new message into the chat of \<open>msg\<close>; on \<open>None\<close> the
      attribute lookup raises\<close>
  "reply_text msg txt parse_mode reply_markup =
     (case msg of
        None \<Rightarrow> raise (AttributeError ''NoneType'' ''reply_text'')
      | Some m \<Rightarrow> transport (SendMessage (chat_id m) txt parse_mode reply_markup))"

section \<open>The handlers of \<open>UserInfoBot\<close>\<close>

definition start_text :: string where
  "start_text =
     WAVE @ '' Welcome to User Info Bot!'' @ NL @ NL @
     ''I can show information about forwarded messages.'' @ NL @ NL @
     ''Try these options:''"

definition start :: "Update \<Rightarrow> proc" where
  "start update =
     reply_text (message update) start_text None
       (Some [[InlineKeyboardButton ''Show My ID'' ''myid''],
              [InlineKeyboardButton ''Help'' ''help'']])"

definition myid_text :: "User \<Rightarrow> string" where
  "myid_text user =
     ID_SIGN @ '' <b>Your Telegram ID</b>'' @ NL @
     TEE @ '' ID: <code>'' @ str_int (user_id user) @ ''</code>'' @ NL @
     TEE @ '' Username: @'' @ or_NA (username user) @ NL @
     ELBOW @ '' Language: '' @ or_NA (language_code user)"

definition myid_command :: "Update \<Rightarrow> proc" where
  \<comment> \<open>\<open>update.message.reply_text\<close> is looked up before the arguments are evaluated\<close>
  "myid_command update =
     (case message update of
        None \<Rightarrow> raise (AttributeError ''NoneType'' ''reply_text'')
      | Some m \<Rightarrow>
          (case effective_user update of
             None \<Rightarrow> raise (AttributeError ''NoneType'' ''id'')
           | Some user \<Rightarrow>
               transport (SendMessage (chat_id m) (myid_text user) (Some ''HTML'')
                 (Some [[InlineKeyboardButton ''Refresh'' ''refresh_myid'']]))))"

definition help_text :: string where
  "help_text =
     INFO_SIGN @ '' <b>Bot Help</b>'' @ NL @ NL @
     ''<b>Commands:</b>'' @ NL @
     ''/start - Welcome message'' @ NL @
     ''/myid - Show your Telegram ID'' @ NL @
     ''/help - This message'' @ NL @ NL @
     ''<b>How to use:</b>'' @ NL @
     ''1. Forward any message to see sender info'' @ NL @
     ''2. Some info may be hidden due to privacy settings''"

definition help_command :: "Update \<Rightarrow> proc" where
  "help_command update = reply_text (message update) help_text (Some ''HTML'') None"

definition user_info_text :: "User \<Rightarrow> string" where
  "user_info_text user =
     BUST @ '' <b>User Information</b>'' @ NL @
     TEE @ '' ID: <code>'' @ str_int (user_id user) @ ''</code>'' @ NL @
     TEE @ '' Username: @'' @ or_NA (username user) @ NL @
     TEE @ '' Bot: '' @ (if is_bot user then CHECK_MARK @ '' Yes'' else CROSS_MARK @ '' No'') @ NL @
     ELBOW @ '' Language: '' @ or_NA (language_code user)"

definition show_user_info :: "Message \<Rightarrow> User \<Rightarrow> proc" where
  "show_user_info msg user =
     reply_text (Some msg) (user_info_text user) (Some ''HTML'')
       (Some [[InlineKeyboardButton ''Refresh'' (''refresh_user_'' @ str_int (user_id user))],
              [InlineKeyboardButton ''Close'' ''close'']])"

text \<open>
  \<open>handle_message\<close> calls \<open>self.show_chat_info\<close> and \<open>self.show_private_forward\<close>.
  The class defines \<open>__init__\<close>, \<open>start\<close>, \<open>myid_command\<close>, \<open>help_command\<close>,
  \<open>handle_message\<close>, \<open>show_user_info\<close>, \<open>handle_button_press\<close> and \<open>run\<close>, and its
  instances the attributes \<open>token\<close> and \<open>app\<close>: neither name is among them, so looking
  it up on \<open>self\<close> raises before anything is called.
\<close>

definition UserInfoBot_attributes :: "string list" where
  "UserInfoBot_attributes =
     [''__init__'', ''start'', ''myid_command'', ''help_command'', ''handle_message'',
      ''show_user_info'', ''handle_button_press'', ''run'', ''token'', ''app'']"

definition self_lookup :: "string \<Rightarrow> proc \<Rightarrow> proc" where
  \<comment> \<open>\<open>self.name(...)\<close>: the body runs when the class has the name\<close>
  "self_lookup name body =
     (if name \<in> set UserInfoBot_attributes then body
      else raise (AttributeError ''UserInfoBot'' name))"

definition error_text :: string where
  "error_text = WARNING_SIGN @ '' An error occurred while processing your message''"

definition prompt_text :: string where
  "prompt_text = INFO_SIGN @ '' Forward me a message to see info about the sender''"

definition try_body :: "Message option \<Rightarrow> proc" where
  \<comment> \<open>the \<open>try\<close> block of \<open>handle_message\<close>; on \<open>None\<close> the three \<open>hasattr\<close> tests are
      false and reading \<open>forward_date\<close> raises. The two methods the class lacks have no
      body: \<open>self_lookup\<close> raises whatever stands in its place.\<close>
  "try_body msg =
     (case msg of
        None \<Rightarrow> raise (AttributeError ''NoneType'' ''forward_date'')
      | Some m \<Rightarrow>
          (case probe object_truth (forward_from m) of
             Some user \<Rightarrow> self_lookup ''show_user_info'' (show_user_info m user)
           | None \<Rightarrow>
               (case probe object_truth (forward_from_chat m) of
                  Some c \<Rightarrow> self_lookup ''show_chat_info'' skip
                | None \<Rightarrow>
                    (case probe str_truth (forward_sender_name m) of
                       Some n \<Rightarrow> self_lookup ''show_private_forward'' skip
                     | None \<Rightarrow>
                         (case forward_date m of
                            Missing \<Rightarrow> raise (AttributeError ''Message'' ''forward_date'')
                          | Present None \<Rightarrow>
                              reply_text msg prompt_text None
                                (Some [[InlineKeyboardButton ''What can I do?'' ''help'']])
                          | Present (Some d) \<Rightarrow> skip)))))"

definition handle_message :: "Update \<Rightarrow> proc" where
  "handle_message update w =
     (case try_body (message update) w of
        (Inr u, w') \<Rightarrow> (Inr u, w')
      | (Inl e, w') \<Rightarrow>
          if is_Exception e
          then reply_text (message update) error_text None None
                 (logger_error (''Error handling message: '' @ exn_str e) w')
          else (Inl e, w'))"

definition myid_edit_text :: "User \<Rightarrow> string" where
  "myid_edit_text user =
     ID_SIGN @ '' <b>Your ID</b>: <code>'' @ str_int (user_id user) @ ''</code>'' @ NL @
     BUST @ '' <b>Username</b>: @'' @ or_NA (username user)"

definition handle_button_press :: "Update \<Rightarrow> proc" where
  "handle_button_press update =
     (case callback_query update of
        None \<Rightarrow> raise (AttributeError ''NoneType'' ''answer'')
      | Some query \<Rightarrow>
          then_do (transport (AnswerCallbackQuery (query_id query)))
            (if data query = Some ''myid'' then
               transport (EditMessageText (chat_id (query_message query))
                 (message_id (query_message query))
                 (myid_edit_text (from_user query)) (Some ''HTML'') None)
             else if data query = Some ''help'' then help_command update
             else if data query = Some ''close'' then
               transport (DeleteMessage (chat_id (query_message query))
                 (message_id (query_message query)))
             else skip))"


definition on_command :: "string \<Rightarrow> Update \<Rightarrow> proc" where
  "on_command name update =
     (if name = ''start'' then start update
      else if name = ''myid'' then myid_command update
      else if name = ''help'' then help_command update
      else skip)"


section \<open>What the requests do on the platform\<close>

text \<open>
  The messages a chat shows, and the effect of each completed request on them as the
  platform's interface documents it: a sent message is new, an edit replaces the text
  and the button layout of its target by those of the request (no layout in the
  request leaves the target without buttons), a delete removes the target, and an
  answer to a callback query changes no message.
\<close>

record shown =
  in_chat :: int
  ident :: int
  content :: string
  keyboard :: "InlineKeyboardMarkup option"

definition fresh_ident :: "int \<Rightarrow> shown list \<Rightarrow> int" where
  "fresh_ident c s = 1 + fold max (map ident (filter (\<lambda>m. in_chat m = c) s)) 0"

fun render_call :: "call \<Rightarrow> shown list \<Rightarrow> shown list" where
  "render_call (AnswerCallbackQuery q) s = s"
| "render_call (SendMessage c txt pm kb) s =
     s @ [\<lparr>in_chat = c, ident = fresh_ident c s, content = txt, keyboard = kb\<rparr>]"
| "render_call (EditMessageText c i txt pm kb) s =
     map (\<lambda>m. if in_chat m = c \<and> ident m = i then m\<lparr>content := txt, keyboard := kb\<rparr> else m) s"
| "render_call (DeleteMessage c i) s = filter (\<lambda>m. \<not> (in_chat m = c \<and> ident m = i)) s"

definition performed :: "(call \<times> outcome) list \<Rightarrow> call list" where
  "performed t = map fst (filter (\<lambda>r. snd r = Completes) t)"

definition render :: "(call \<times> outcome) list \<Rightarrow> shown list \<Rightarrow> shown list" where
  "render t s = fold render_call (performed t) s"

section \<open>Counting what a handler did\<close>

fun is_outbound :: "call \<Rightarrow> bool" where
  \<comment> \<open>send, edit and delete are the outbound actions; the answer to a callback query is
      the acknowledgement\<close>
  "is_outbound (AnswerCallbackQuery q) = False"
| "is_outbound _ = True"


definition acknowledgements :: "world \<Rightarrow> (call \<times> outcome) list" where
  "acknowledgements w = filter (\<lambda>r. \<not> is_outbound (fst r)) (trace w)"

section \<open>Sample events\<close>

definition quiet :: world where
  \<comment> \<open>nothing requested yet, and a transport that answers every request\<close>
  "quiet = \<lparr>script = [], trace = [], log = []\<rparr>"

definition flaky :: "outcome list \<Rightarrow> world" where
  \<comment> \<open>nothing requested yet, and a transport that answers as listed\<close>
  "flaky outs = \<lparr>script = outs, trace = [], log = []\<rparr>"

definition bob :: User where
  "bob = \<lparr>user_id = 7, username = Some ''bob'', is_bot = False, language_code = Some ''en''\<rparr>"

definition alice :: User where
  "alice = \<lparr>user_id = 100, username = Some ''alice'', is_bot = False, language_code = Some ''en''\<rparr>"

definition forty_two :: User where
  "forty_two = \<lparr>user_id = 42, username = None, is_bot = False, language_code = None\<rparr>"

definition typed :: "User \<Rightarrow> Message" where
  \<comment> \<open>a message the user wrote in the private chat with the bot, not a forward\<close>
  "typed user =
     \<lparr>chat_id = user_id user, message_id = 5, forward_from = Present None,
      forward_from_chat = Present None, forward_sender_name = Present None,
      forward_date = Present None\<rparr>"

definition typed_by :: "User \<Rightarrow> Update" where
  "typed_by user =
     \<lparr>message = Some (typed user), callback_query = None, effective_user = Some user\<rparr>"

definition forwarded_by_bob ::
  "User option attr \<Rightarrow> Chat option attr \<Rightarrow> string option attr \<Rightarrow> Update" where
  \<comment> \<open>a message bob forwards to the bot, with the given origin attributes\<close>
  "forwarded_by_bob origin_user origin_chat origin_name =
     \<lparr>message = Some \<lparr>chat_id = 7, message_id = 1, forward_from = origin_user,
        forward_from_chat = origin_chat, forward_sender_name = origin_name,
        forward_date = Present (Some 1700000000)\<rparr>,
      callback_query = None, effective_user = Some bob\<rparr>"

definition chat_forward :: Update where
  \<comment> \<open>a post of a channel\<close>
  "chat_forward =
     forwarded_by_bob (Present None)
       (Present (Some \<lparr>chat_ident = - 1001, chat_title = Some ''News''\<rparr>)) (Present None)"

definition hidden_forward :: Update where
  \<comment> \<open>a message of a user who keeps the account hidden behind forwards\<close>
  "hidden_forward = forwarded_by_bob (Present None) (Present None) (Present (Some ''Carol''))"

definition bare_forward :: Update where
  \<comment> \<open>forward date present, every origin attribute empty\<close>
  "bare_forward = forwarded_by_bob (Present None) Missing (Present (Some []))"

definition welcome_message :: Message where
  \<comment> \<open>the bot's own welcome message in the chat with bob, the one that carries buttons\<close>
  "welcome_message =
     \<lparr>chat_id = 7, message_id = 10, forward_from = Present None,
      forward_from_chat = Present None, forward_sender_name = Present None,
      forward_date = Present None\<rparr>"

definition welcome_shown :: "shown list" where
  "welcome_shown =
     [\<lparr>in_chat = 7, ident = 10, content = start_text,
       keyboard = Some [[InlineKeyboardButton ''Show My ID'' ''myid''],
                        [InlineKeyboardButton ''Help'' ''help'']]\<rparr>]"

definition pressed :: "string \<Rightarrow> CallbackQuery" where
  "pressed payload =
     \<lparr>query_id = ''q1'', data = Some payload, from_user = bob, query_message = welcome_message\<rparr>"

definition press :: "string \<Rightarrow> Update" where
  \<comment> \<open>bob presses a button under the welcome message; an update that carries a callback
      query carries no message of its own\<close>
  "press payload =
     \<lparr>message = None, callback_query = Some (pressed payload), effective_user = Some bob\<rparr>"

section \<open>Facts about the transport and the handlers\<close>

lemma transport_Completes:
  "next_outcome w = Completes \<Longrightarrow> transport c w = (Inr (), issued c w)"
  by (simp add: transport_def)

lemma transport_Raises:
  "next_outcome w = Raises e \<Longrightarrow> transport c w = (Inl e, issued c w)"
  by (simp add: transport_def)

lemma transport_delivered:
  "next_outcome w = Completes \<Longrightarrow> transport c w = (Inr (), delivered c w)"
  by (simp add: transport_def issued_def delivered_def)

lemma snd_transport: "snd (transport c w) = issued c w"
  by (simp add: transport_def split: outcome.splits)

lemma completes_Suc:
  "completes (Suc n) w \<Longrightarrow> next_outcome w = Completes \<and> completes n (issued c w)"
  by (cases "script w") (simp_all add: completes_def next_outcome_def issued_def)

lemma self_lookup_simps:
  "self_lookup ''show_user_info'' body = body"
  "self_lookup ''show_chat_info'' body = raise (AttributeError ''UserInfoBot'' ''show_chat_info'')"
  "self_lookup ''show_private_forward'' body =
     raise (AttributeError ''UserInfoBot'' ''show_private_forward'')"
  by (simp_all add: self_lookup_def UserInfoBot_attributes_def)

lemma try_body_log: "log (snd (try_body msg w)) = log w"
  by (auto simp: try_body_def raise_def skip_def show_user_info_def self_lookup_simps
      reply_text_def snd_transport issued_def split: option.splits attr.splits)

subsection \<open>Outbound actions\<close>












subsection \<open>Acknowledgements\<close>

lemma acknowledgements_issued:
  "acknowledgements (issued c w) =
     acknowledgements w @ (if is_outbound c then [] else [(c, next_outcome w)])"
  by (simp add: acknowledgements_def issued_def)

lemma transport_acknowledgements:
  "is_outbound c \<Longrightarrow> acknowledgements (snd (transport c w)) = acknowledgements w"
  by (simp add: snd_transport acknowledgements_issued)

lemma reply_text_acknowledgements:
  "acknowledgements (snd (reply_text msg txt pm kb w)) = acknowledgements w"
  by (cases msg) (simp_all add: reply_text_def raise_def transport_acknowledgements)

subsection \<open>The platform\<close>

lemma render_issued:
  "render (trace (issued c w)) s =
     (if next_outcome w = Completes then render_call c (render (trace w) s) else render (trace w) s)"
  by (simp add: render_def performed_def issued_def)

subsection \<open>The texts\<close>

lemma str_int_42: "str_int 42 = ''42''"
  by code_simp

lemma str_int_100: "str_int 100 = ''100''"
  by code_simp

lemma user_info_text_fields:
  "user_id u = user_id v \<Longrightarrow> username u = username v \<Longrightarrow> is_bot u = is_bot v \<Longrightarrow>
   language_code u = language_code v \<Longrightarrow> user_info_text u = user_info_text v"
  by (simp add: user_info_text_def)

lemma user_info_text_forty_two:
  "user_info_text forty_two =
     BUST @ '' <b>User Information</b>'' @ NL @
     TEE @ '' ID: <code>42</code>'' @ NL @
     TEE @ '' Username: @N/A'' @ NL @
     TEE @ '' Bot: '' @ CROSS_MARK @ '' No'' @ NL @
     ELBOW @ '' Language: N/A''"
  by (simp add: user_info_text_def forty_two_def str_int_42)

lemma user_info_text_42:
  "sublist ''42'' (user_info_text forty_two)"
  "occurrences ''N/A'' (user_info_text forty_two) = 2"
  "sublist (CROSS_MARK @ '' No'') (user_info_text forty_two)"
  "\<not> sublist CHECK_MARK (user_info_text forty_two)"
  by code_simp+









lemma myid_text_alice:
  "myid_text alice =
     ID_SIGN @ '' <b>Your Telegram ID</b>'' @ NL @
     TEE @ '' ID: <code>100</code>'' @ NL @
     TEE @ '' Username: @alice'' @ NL @
     ELBOW @ '' Language: en''"
  by (simp add: myid_text_def alice_def str_int_100)


section \<open>The claims\<close>

text \<open>
  C1. A message forwarded from a chat should get a chat-info block. In the code the
  branch calls \<open>self.show_chat_info\<close>, which the class does not define: the lookup
  raises, the handler logs the failure and the user gets the generic error reply, with
  no word about the chat.
\<close>

theorem chat_forward_gets_error_reply:
  "handle_message chat_forward quiet =
     (Inr (),
      \<lparr>script = [],
       trace = [(SendMessage 7 error_text None None, Completes)],
       log = [''Error handling message: '' @ QUOTE @ ''UserInfoBot'' @ QUOTE @
              '' object has no attribute '' @ QUOTE @ ''show_chat_info'' @ QUOTE]\<rparr>)"
  by (simp add: handle_message_def try_body_def chat_forward_def forwarded_by_bob_def quiet_def
      object_truth_def self_lookup_simps raise_def logger_error_def reply_text_def
      transport_def next_outcome_def issued_def)

text \<open>
  C2. A forward whose sender is hidden should get a block with the sender's display
  name. In the code the branch calls \<open>self.show_private_forward\<close>, which the class does
  not define: the user gets the generic error reply, and the name is not in it.
\<close>

theorem hidden_forward_gets_error_reply:
  "handle_message hidden_forward quiet =
     (Inr (),
      \<lparr>script = [],
       trace = [(SendMessage 7 error_text None None, Completes)],
       log = [''Error handling message: '' @ QUOTE @ ''UserInfoBot'' @ QUOTE @
              '' object has no attribute '' @ QUOTE @ ''show_private_forward'' @ QUOTE]\<rparr>)
   \<and> \<not> sublist ''Carol'' error_text"
proof -
  have "\<not> sublist ''Carol'' error_text"
    by code_simp
  then show ?thesis
    by (simp add: handle_message_def try_body_def hidden_forward_def forwarded_by_bob_def
        quiet_def object_truth_def str_truth_def self_lookup_simps raise_def logger_error_def
        reply_text_def transport_def next_outcome_def issued_def)
qed

text \<open>
  C3, as stated, fails: the handler of button presses has no \<open>try\<close>. When the edit
  requested by the payload \<open>myid\<close> times out, the exception is the handler's result,
  nothing is logged and no error reply is requested.
\<close>

theorem button_press_failure_propagates:
  "handle_button_press (press ''myid'') (flaky [Completes, Raises (NetworkError ''Timed out'')]) =
     (Inl (NetworkError ''Timed out''),
      \<lparr>script = [],
       trace = [(AnswerCallbackQuery ''q1'', Completes),
                (EditMessageText 7 10 (myid_edit_text bob) (Some ''HTML'') None,
                 Raises (NetworkError ''Timed out''))],
       log = []\<rparr>)"
  by (simp add: handle_button_press_def press_def pressed_def flaky_def then_do_def
      transport_def next_outcome_def issued_def welcome_message_def)

text \<open>
  C3, amended. For a plain message: when the \<open>try\<close> block of \<open>handle_message\<close> raises an
  exception derived from \<open>Exception\<close> (while classifying, formatting or sending), the
  handler catches it, writes one line to the log and makes exactly one more request,
  the generic error reply in plain text (no parse mode, no buttons). The handler
  returns normally when that request completes; when it raises, its exception is the
  handler's result.
\<close>

theorem message_failure_caught_logged_answered:
  assumes "message update = Some m"
    and "try_body (Some m) w = (Inl e, w1)"
    and "is_Exception e"
  shows "handle_message update w =
           ((case next_outcome w1 of Completes \<Rightarrow> Inr () | Raises e' \<Rightarrow> Inl e'),
            w1\<lparr>script := tl (script w1),
               trace := trace w1 @
                 [(SendMessage (chat_id m) error_text None None, next_outcome w1)],
               log := log w @ [''Error handling message: '' @ exn_str e]\<rparr>)"
proof -
  have "log w1 = log w"
    using try_body_log[of "Some m" w] assms(2) by simp
  then show ?thesis
    using assms
    by (simp add: handle_message_def reply_text_def transport_def logger_error_def issued_def
        next_outcome_def split: outcome.splits)
qed

text \<open>
  C3, an instance: bob forwards a message of his own, the user-info reply times out,
  and the error reply goes through.
\<close>

theorem message_failure_caught_logged_answered_witness:
  "try_body (message (forwarded_by_bob (Present (Some bob)) (Present None) (Present None)))
     (flaky [Raises (NetworkError ''Timed out'')]) =
     (Inl (NetworkError ''Timed out''),
      \<lparr>script = [],
       trace = [(SendMessage 7 (user_info_text bob) (Some ''HTML'')
                   (Some [[InlineKeyboardButton ''Refresh'' ''refresh_user_7''],
                          [InlineKeyboardButton ''Close'' ''close'']]),
                 Raises (NetworkError ''Timed out''))],
       log = []\<rparr>)
   \<and> is_Exception (NetworkError ''Timed out'')
   \<and> handle_message (forwarded_by_bob (Present (Some bob)) (Present None) (Present None))
       (flaky [Raises (NetworkError ''Timed out'')]) =
     (Inr (),
      \<lparr>script = [],
       trace = [(SendMessage 7 (user_info_text bob) (Some ''HTML'')
                   (Some [[InlineKeyboardButton ''Refresh'' ''refresh_user_7''],
                          [InlineKeyboardButton ''Close'' ''close'']]),
                 Raises (NetworkError ''Timed out'')),
                (SendMessage 7 error_text None None, Completes)],
       log = [''Error handling message: Timed out'']\<rparr>)"
proof -
  let ?u = "forwarded_by_bob (Present (Some bob)) (Present None) (Present None)"
  let ?m = "\<lparr>chat_id = 7, message_id = 1, forward_from = Present (Some bob),
        forward_from_chat = Present None, forward_sender_name = Present None,
        forward_date = Present (Some 1700000000)\<rparr>"
  let ?w1 = "\<lparr>script = [],
       trace = [(SendMessage 7 (user_info_text bob) (Some ''HTML'')
                   (Some [[InlineKeyboardButton ''Refresh'' ''refresh_user_7''],
                          [InlineKeyboardButton ''Close'' ''close'']]),
                 Raises (NetworkError ''Timed out''))],
       log = []\<rparr>"
  have seven: "str_int 7 = ''7''"
    by code_simp
  have t: "try_body (Some ?m) (flaky [Raises (NetworkError ''Timed out'')]) =
             (Inl (NetworkError ''Timed out''), ?w1)"
    by (simp add: try_body_def object_truth_def self_lookup_simps show_user_info_def
        reply_text_def transport_def next_outcome_def issued_def flaky_def bob_def seven)
  have m: "message ?u = Some ?m"
    by (simp add: forwarded_by_bob_def)
  show ?thesis
    using message_failure_caught_logged_answered [OF m t] t
    by (simp add: m next_outcome_def flaky_def)
qed

text \<open>
  C4. Pressing the button with payload \<open>help\<close> should yield the help block of the
  command \<open>/help\<close>. The button handler passes its update on to \<open>help_command\<close>, which
  replies through \<open>update.message\<close>; the update of a button press has no message, so
  the lookup of \<open>reply_text\<close> raises after the acknowledgement and no help block is
  sent. The same \<open>help_command\<close> on a typed \<open>/help\<close> sends it.
\<close>

theorem help_press_sends_no_help:
  "handle_button_press (press ''help'') quiet =
     (Inl (AttributeError ''NoneType'' ''reply_text''),
      \<lparr>script = [], trace = [(AnswerCallbackQuery ''q1'', Completes)], log = []\<rparr>)
   \<and> on_command ''help'' (typed_by bob) quiet =
     (Inr (),
      \<lparr>script = [], trace = [(SendMessage 7 help_text (Some ''HTML'') None, Completes)],
       log = []\<rparr>)"
  by (simp add: handle_button_press_def press_def pressed_def quiet_def then_do_def
      transport_def next_outcome_def issued_def help_command_def reply_text_def raise_def
      on_command_def typed_by_def typed_def bob_def)

text \<open>
  C5. A plain message forwarded from a user with id 42, no username, not a bot and no
  language, when the transport delivers the reply: the handler returns normally after
  one request, a new message in HTML mode whose text has \<open>42\<close> in it, \<open>N/A\<close> exactly
  twice, the cross mark with \<open>No\<close> and no check mark, under exactly two rows of one
  button each, \<open>Refresh\<close> with payload \<open>refresh_user_42\<close> and \<open>Close\<close>.
\<close>

theorem user_origin_42_reply:
  assumes "message update = Some m"
    and "forward_from m = Present (Some user)"
    and "user_id user = 42" and "username user = None" and "\<not> is_bot user"
    and "language_code user = None"
    and "next_outcome w = Completes"
  shows "handle_message update w =
           (Inr (),
            delivered (SendMessage (chat_id m) (user_info_text user) (Some ''HTML'')
              (Some [[InlineKeyboardButton ''Refresh'' ''refresh_user_42''],
                     [InlineKeyboardButton ''Close'' ''close'']])) w)
         \<and> sublist ''42'' (user_info_text user)
         \<and> occurrences ''N/A'' (user_info_text user) = 2
         \<and> sublist (CROSS_MARK @ '' No'') (user_info_text user)
         \<and> \<not> sublist CHECK_MARK (user_info_text user)"
proof -
  have same: "user_info_text user = user_info_text forty_two"
    using assms by (intro user_info_text_fields) (simp_all add: forty_two_def)
  have run: "handle_message update w =
           (Inr (),
            delivered (SendMessage (chat_id m) (user_info_text user) (Some ''HTML'')
              (Some [[InlineKeyboardButton ''Refresh'' ''refresh_user_42''],
                     [InlineKeyboardButton ''Close'' ''close'']])) w)"
    using assms
    by (simp add: handle_message_def try_body_def object_truth_def self_lookup_simps
        show_user_info_def reply_text_def transport_delivered str_int_42)
  show ?thesis
    using run user_info_text_42 by (simp only: same simp_thms)
qed

text \<open>C5, an instance: bob forwards a message of that user.\<close>

theorem user_origin_42_reply_witness:
  "next_outcome quiet = Completes
   \<and> handle_message (forwarded_by_bob (Present (Some forty_two)) (Present None) (Present None))
       quiet =
     (Inr (),
      \<lparr>script = [],
       trace = [(SendMessage 7 (user_info_text forty_two) (Some ''HTML'')
                   (Some [[InlineKeyboardButton ''Refresh'' ''refresh_user_42''],
                          [InlineKeyboardButton ''Close'' ''close'']]),
                 Completes)],
       log = []\<rparr>)
   \<and> occurrences ''N/A'' (user_info_text forty_two) = 2"
proof -
  have q: "next_outcome quiet = Completes"
    by (simp add: next_outcome_def quiet_def)
  show ?thesis
    using user_origin_42_reply
      [of "forwarded_by_bob (Present (Some forty_two)) (Present None) (Present None)"
        "\<lparr>chat_id = 7, message_id = 1, forward_from = Present (Some forty_two),
          forward_from_chat = Present None, forward_sender_name = Present None,
          forward_date = Present (Some 1700000000)\<rparr>"
        forty_two quiet] q
    by (simp add: forwarded_by_bob_def forty_two_def delivered_def quiet_def)
qed


text \<open>
  C7. A message that carries a forward date while none of its three origin attributes
  holds anything (the attribute is missing, is \<open>None\<close>, or is the empty name) is passed
  over: the handler returns normally and the world is as before, with no request made
  and nothing logged.
\<close>

theorem no_origin_no_action:
  assumes "message update = Some m"
    and "forward_from m \<in> {Missing, Present None}"
    and "forward_from_chat m \<in> {Missing, Present None}"
    and "forward_sender_name m \<in> {Missing, Present None, Present (Some [])}"
    and "forward_date m = Present (Some d)"
  shows "handle_message update w = (Inr (), w)"
  using assms
  by (auto simp: handle_message_def try_body_def str_truth_def skip_def)

text \<open>C7, an instance: the forward with a date and nothing else.\<close>

theorem no_origin_no_action_witness:
  "message bare_forward \<noteq> None \<and> handle_message bare_forward quiet = (Inr (), quiet)"
  using no_origin_no_action [of bare_forward
      "\<lparr>chat_id = 7, message_id = 1, forward_from = Present None, forward_from_chat = Missing,
        forward_sender_name = Present (Some []), forward_date = Present (Some 1700000000)\<rparr>"
      1700000000 quiet]
  by (simp add: bare_forward_def forwarded_by_bob_def)



text \<open>
  C9. For every update that carries a callback query, whatever its payload and whatever
  the transport answers to the requests of the branch: the handler requests the answer
  to that callback query exactly once, as its first request, and the acknowledgement
  has the outcome the transport gives that first request.
\<close>

theorem button_press_acknowledged_once:
  assumes "callback_query update = Some query"
  shows "acknowledgements (snd (handle_button_press update w)) =
           acknowledgements w @ [(AnswerCallbackQuery (query_id query), next_outcome w)]"
proof (cases "next_outcome w")
  case Completes
  have ack: "acknowledgements (issued (AnswerCallbackQuery (query_id query)) w) =
               acknowledgements w @ [(AnswerCallbackQuery (query_id query), Completes)]"
    by (simp add: acknowledgements_issued Completes)
  show ?thesis
    using assms Completes
    by (simp add: handle_button_press_def then_do_def transport_Completes help_command_def
        skip_def transport_acknowledgements reply_text_acknowledgements ack)
next
  case (Raises e)
  with assms show ?thesis
    by (simp add: handle_button_press_def then_do_def transport_Raises acknowledgements_issued)
qed

text \<open>
  C9, instances: a payload no branch matches, the payload \<open>help\<close> whose branch raises,
  and the payload \<open>myid\<close> whose edit times out.
\<close>

theorem button_press_acknowledged_once_witness:
  "callback_query (press ''refresh_myid'') = Some (pressed ''refresh_myid'')
   \<and> acknowledgements (snd (handle_button_press (press ''refresh_myid'') quiet)) =
       [(AnswerCallbackQuery ''q1'', Completes)]
   \<and> acknowledgements (snd (handle_button_press (press ''help'') quiet)) =
       [(AnswerCallbackQuery ''q1'', Completes)]
   \<and> acknowledgements (snd (handle_button_press (press ''myid'')
         (flaky [Completes, Raises (NetworkError ''Timed out'')]))) =
       [(AnswerCallbackQuery ''q1'', Completes)]"
  using button_press_acknowledged_once [of "press ''refresh_myid''" _ quiet]
    button_press_acknowledged_once [of "press ''help''" _ quiet]
    button_press_acknowledged_once [of "press ''myid''" _
      "flaky [Completes, Raises (NetworkError ''Timed out'')]"]
  by (simp add: press_def pressed_def quiet_def flaky_def acknowledgements_def next_outcome_def)

text \<open>
  C10. A button press with payload \<open>myid\<close>, when the transport lets the two requests
  complete: after the acknowledgement the handler requests one edit of the message the
  button sits under, with the new text in HTML mode and no button layout. On the
  platform the edit adds and removes no message, and the edited message shows the new
  text and has no buttons left, whatever it had before.
\<close>

theorem myid_press_edits_without_buttons:
  assumes "callback_query update = Some query" and "data query = Some ''myid''"
    and "completes 2 w"
  shows "handle_button_press update w =
           (Inr (),
            w\<lparr>script := drop 2 (script w),
              trace := trace w @
                [(AnswerCallbackQuery (query_id query), Completes),
                 (EditMessageText (chat_id (query_message query)) (message_id (query_message query))
                    (myid_edit_text (from_user query)) (Some ''HTML'') None, Completes)]\<rparr>)
         \<and> (\<forall>s. map (\<lambda>x. (in_chat x, ident x))
                    (render (trace (snd (handle_button_press update w))) s) =
                  map (\<lambda>x. (in_chat x, ident x)) (render (trace w) s)
                \<and> (\<forall>x \<in> set (render (trace (snd (handle_button_press update w))) s).
                     in_chat x = chat_id (query_message query)
                     \<and> ident x = message_id (query_message query)
                     \<longrightarrow> keyboard x = None \<and> content x = myid_edit_text (from_user query)))"
proof -
  let ?ack = "AnswerCallbackQuery (query_id query)"
  let ?edit = "EditMessageText (chat_id (query_message query)) (message_id (query_message query))
                 (myid_edit_text (from_user query)) (Some ''HTML'') None"
  have "completes (Suc (Suc 0)) w"
    using assms(3) by (simp add: numeral_2_eq_2)
  then have o1: "next_outcome w = Completes" and c1: "completes (Suc 0) (issued ?ack w)"
    using completes_Suc by blast+
  from c1 have o2: "next_outcome (issued ?ack w) = Completes"
    using completes_Suc by blast
  have run: "handle_button_press update w = (Inr (), issued ?edit (issued ?ack w))"
    using assms(1,2) o1 o2
    by (simp add: handle_button_press_def then_do_def transport_Completes)
  have shape: "issued ?edit (issued ?ack w) =
            w\<lparr>script := drop 2 (script w),
              trace := trace w @ [(?ack, Completes), (?edit, Completes)]\<rparr>"
    using o1 o2 by (simp add: issued_def drop_Suc numeral_2_eq_2 drop_tl)
  have screen: "render (trace (issued ?edit (issued ?ack w))) s =
                  render_call ?edit (render (trace w) s)" for s
    using o1 o2 by (simp add: render_issued)
  have frame: "map (\<lambda>x. (in_chat x, ident x)) (render_call ?edit t) =
                 map (\<lambda>x. (in_chat x, ident x)) t" for t
    by (simp add: comp_def)
  have gone: "\<forall>x \<in> set (render_call ?edit t).
                in_chat x = chat_id (query_message query)
                \<and> ident x = message_id (query_message query)
                \<longrightarrow> keyboard x = None \<and> content x = myid_edit_text (from_user query)" for t
    by auto
  have first: "handle_button_press update w =
           (Inr (),
            w\<lparr>script := drop 2 (script w),
              trace := trace w @ [(?ack, Completes), (?edit, Completes)]\<rparr>)"
    using run shape by simp
  have second: "\<forall>s. map (\<lambda>x. (in_chat x, ident x))
                    (render (trace (snd (handle_button_press update w))) s) =
                  map (\<lambda>x. (in_chat x, ident x)) (render (trace w) s)
                \<and> (\<forall>x \<in> set (render (trace (snd (handle_button_press update w))) s).
                     in_chat x = chat_id (query_message query)
                     \<and> ident x = message_id (query_message query)
                     \<longrightarrow> keyboard x = None \<and> content x = myid_edit_text (from_user query))"
    unfolding run snd_conv screen using frame gone by blast
  show ?thesis
    using first second by (rule conjI)
qed

text \<open>
  C10, an instance: bob presses \<open>Show My ID\<close> under the welcome message, which showed
  two buttons; afterwards it shows his id and none.
\<close>

theorem myid_press_edits_without_buttons_witness:
  "completes 2 quiet
   \<and> data (pressed ''myid'') = Some ''myid''
   \<and> keyboard (hd welcome_shown) =
       Some [[InlineKeyboardButton ''Show My ID'' ''myid''], [InlineKeyboardButton ''Help'' ''help'']]
   \<and> render (trace (snd (handle_button_press (press ''myid'') quiet))) welcome_shown =
       [\<lparr>in_chat = 7, ident = 10, content = myid_edit_text bob, keyboard = None\<rparr>]"
proof -
  have c: "completes 2 quiet"
    by (simp add: completes_def quiet_def)
  have q: "callback_query (press ''myid'') = Some (pressed ''myid'')"
    and d: "data (pressed ''myid'') = Some ''myid''"
    by (simp_all add: press_def pressed_def)
  have "handle_button_press (press ''myid'') quiet =
          (Inr (),
           quiet\<lparr>script := drop 2 (script quiet),
             trace := trace quiet @
               [(AnswerCallbackQuery ''q1'', Completes),
                (EditMessageText 7 10 (myid_edit_text bob) (Some ''HTML'') None, Completes)]\<rparr>)"
    using myid_press_edits_without_buttons [OF q d c]
    by (simp add: pressed_def welcome_message_def)
  then show ?thesis
    using c d by (simp add: quiet_def render_def performed_def welcome_shown_def)
qed

end
